theory Spec2Isabelle
  imports Complex_Main
begin

section \<open>Values and effects of \<open>seo_analysis.py\<close>\<close>

text \<open>
  A raised Python exception: its class name and the text \<open>str(e)\<close> that the program
  prints. Every value of this type is an instance of \<open>Exception\<close>, the class that the
  three \<open>except Exception\<close> clauses of the program catch; interpreter signals that are
  not errors (\<open>KeyboardInterrupt\<close>, \<open>SystemExit\<close>, task cancellation) are not modelled.
\<close>

datatype exn = Exn (exn_class: string) (exn_str: string)

text \<open>
  What \<open>print\<close> receives. The first f-string of \<open>async_retry\<close> formats a float with two
  decimals; the model keeps the number and the attempt instead of the formatted text:
  \<open>Retrying t n\<close> stands for \<open>f"Retrying in {t:.2f}s... (Attempt {n})"\<close>.
\<close>

datatype message = Text string | Retrying real int

text \<open>A cell or a label of a table.\<close>

datatype scalar = Num int | Str string | Flag bool

text \<open>
  A pandas \<open>DataFrame\<close> with a single-level index: the name of the index, its labels, and
  the columns in order, each with its label and its cells.
\<close>

record frame =
  df_index_name :: "string option"
  df_index :: "scalar list"
  df_columns :: "(string \<times> scalar list) list"

text \<open>The keyword arguments of the two \<open>fig.update_layout\<close> calls.\<close>

datatype layout =
  AxisTitles string string
| Geo bool bool

text \<open>
  The effects of a run, in the order they happen: an invocation of the operation handed
  to \<open>async_retry\<close>, a \<open>print\<close>, an \<open>asyncio.sleep\<close>, and the calls to the plotting
  library with their arguments (\<open>px.line(data, x, y, title)\<close>,
  \<open>px.choropleth(data, locations, locationmode, color, title, color_continuous_scale)\<close>,
  \<open>fig.update_layout\<close>, \<open>fig.show\<close>).
\<close>

datatype event =
  Await
| Print message
| Sleep real
| PxLine frame string "string list" string
| PxChoropleth frame "scalar list" string string string string
| UpdateLayout layout
| Show

text \<open>
  The state a run threads through: the state of the provider side (the \<open>TrendReq\<close>
  client object and whatever it talks to), the number of values already taken from the
  random number generator, and the effects so far.
\<close>

record 'p world =
  provider :: 'p
  draws :: nat
  trace :: "event list"

text \<open>
  The provider client (\<open>pytrends.request.TrendReq\<close>) is an external collaborator and a
  parameter of the model: its constructor and each method is a transition of the provider
  state that returns a value or raises. \<open>build_payload\<close> takes the keyword list, the
  \<open>timeframe\<close> argument when the call site passes one, and \<open>geo\<close>;
  \<open>interest_by_region\<close> takes \<open>resolution\<close>.
\<close>

record ('p, 'q) client =
  trend_req :: "string \<Rightarrow> int \<Rightarrow> 'p \<Rightarrow> (exn + unit) \<times> 'p"
  build_payload :: "string list \<Rightarrow> string option \<Rightarrow> string \<Rightarrow> 'p \<Rightarrow> (exn + unit) \<times> 'p"
  interest_over_time :: "'p \<Rightarrow> (exn + frame) \<times> 'p"
  interest_by_region :: "string \<Rightarrow> 'p \<Rightarrow> (exn + frame) \<times> 'p"
  related_queries :: "'p \<Rightarrow> (exn + 'q) \<times> 'p"

text \<open>
  The plotting library (\<open>plotly.express\<close>) is the other external collaborator: each call
  returns a figure or raises.
\<close>

record 'f renderer =
  px_line :: "frame \<Rightarrow> string \<Rightarrow> string list \<Rightarrow> string \<Rightarrow> exn + 'f"
  px_choropleth :: "frame \<Rightarrow> scalar list \<Rightarrow> string \<Rightarrow> string \<Rightarrow> string \<Rightarrow> string \<Rightarrow> exn + 'f"
  update_layout :: "'f \<Rightarrow> layout \<Rightarrow> exn + 'f"
  show_fig :: "'f \<Rightarrow> exn + unit"

definition emit :: "event \<Rightarrow> 'p world \<Rightarrow> 'p world" where
  "emit ev s = s\<lparr>trace := trace s @ [ev]\<rparr>"

definition print :: "message \<Rightarrow> 'p world \<Rightarrow> 'p world" where
  "print m s = emit (Print m) s"

definition sleep :: "real \<Rightarrow> 'p world \<Rightarrow> 'p world" where
  "sleep t s = emit (Sleep t) s"

section \<open>\<open>async_retry\<close>\<close>

text \<open>
  \<open>rng i\<close> is the value that the \<open>i\<close>-th call of \<open>random.uniform(0, 2)\<close> of the run
  returns. \<open>uniform02\<close> takes the next one.
\<close>

definition uniform02 :: "(nat \<Rightarrow> real) \<Rightarrow> 'p world \<Rightarrow> real \<times> 'p world" where
  "uniform02 rng s = (rng (draws s), s\<lparr>draws := Suc (draws s)\<rparr>)"

text \<open>
  The loop \<open>for attempt in range(retries)\<close> from the iteration \<open>attempt\<close> on. The
  operation \<open>func\<close> is a closure over the provider client. The result is \<open>Inl e\<close> when
  the call raises \<open>e\<close>, \<open>Inr (Some v)\<close> when it returns \<open>v\<close> and \<open>Inr None\<close> when the
  loop ends and the function returns Python's \<open>None\<close>.
\<close>

function async_retry_from ::
  "int \<Rightarrow> ('p \<Rightarrow> (exn + 'a) \<times> 'p) \<Rightarrow> int \<Rightarrow> real \<Rightarrow> (nat \<Rightarrow> real) \<Rightarrow> 'p world
     \<Rightarrow> (exn + 'a option) \<times> 'p world" where
  "async_retry_from attempt func retries delay rng s =
     (if attempt < retries then
        (case func (provider s) of (r, p) \<Rightarrow>
           (let s1 = emit Await (s\<lparr>provider := p\<rparr>) in
            case r of
              Inr v \<Rightarrow> (Inr (Some v), s1)
            | Inl e \<Rightarrow>
                (if attempt < retries - 1 then
                   (case uniform02 rng s1 of (j, s2) \<Rightarrow>
                      (let sleep_time = delay + j;
                           s3 = print (Retrying sleep_time (attempt + 1)) s2;
                           s4 = sleep sleep_time s3
                       in async_retry_from (attempt + 1) func retries delay rng s4))
                 else
                   (Inl e, print (Text (''Max retries reached. Last error: '' @ exn_str e)) s1))))
      else (Inr None, s))"
  by pat_completeness auto
termination
  by (relation "measure (\<lambda>(attempt, func, retries, delay, rng, s). nat (retries - attempt))") auto

declare async_retry_from.simps [simp del]

definition async_retry ::
  "('p \<Rightarrow> (exn + 'a) \<times> 'p) \<Rightarrow> int \<Rightarrow> real \<Rightarrow> (nat \<Rightarrow> real) \<Rightarrow> 'p world
     \<Rightarrow> (exn + 'a option) \<times> 'p world" where
  "async_retry func retries delay rng s = async_retry_from 0 func retries delay rng s"

text \<open>
  The provider state after \<open>n\<close> invocations of \<open>func\<close> in a row: the state in which the
  invocation number \<open>n + 1\<close> of a run of \<open>async_retry\<close> starts.
\<close>

primrec state_after :: "('p \<Rightarrow> (exn + 'a) \<times> 'p) \<Rightarrow> nat \<Rightarrow> 'p \<Rightarrow> 'p" where
  "state_after func 0 p = p"
| "state_after func (Suc n) p = state_after func n (snd (func p))"

text \<open>
  The effects of one failed attempt that is followed by another one, \<open>i\<close> attempts after
  the attempt \<open>attempt\<close> and \<open>d\<close> random draws into the run: the invocation, the
  message and the sleep, both with the same \<open>sleep_time\<close>.
\<close>

definition backoff :: "real \<Rightarrow> (nat \<Rightarrow> real) \<Rightarrow> nat \<Rightarrow> int \<Rightarrow> nat \<Rightarrow> event list" where
  "backoff delay rng d attempt i =
     [Await,
      Print (Retrying (delay + rng (d + i)) (attempt + int i + 1)),
      Sleep (delay + rng (d + i))]"

text \<open>The durations of the sleeps of a trace, and the number of its invocations.\<close>

fun sleeps :: "event list \<Rightarrow> real list" where
  "sleeps [] = []"
| "sleeps (Sleep t # evs) = t # sleeps evs"
| "sleeps (_ # evs) = sleeps evs"

definition invocations :: "event list \<Rightarrow> nat" where
  "invocations evs = length (filter (\<lambda>ev. ev = Await) evs)"

section \<open>The query functions\<close>

text \<open>
  The three closures named \<open>fetch\<close>: \<open>build_payload\<close>, then the retrieval. An exception
  of \<open>build_payload\<close> leaves the closure before the retrieval.
\<close>

definition fetch_over_time ::
  "('p, 'q) client \<Rightarrow> string list \<Rightarrow> string \<Rightarrow> string \<Rightarrow> 'p \<Rightarrow> (exn + frame) \<times> 'p" where
  "fetch_over_time c keywords timeframe geo p =
     (case build_payload c keywords (Some timeframe) geo p of
        (Inl e, p1) \<Rightarrow> (Inl e, p1)
      | (Inr u, p1) \<Rightarrow> interest_over_time c p1)"

definition fetch_by_region ::
  "('p, 'q) client \<Rightarrow> string \<Rightarrow> string \<Rightarrow> string \<Rightarrow> 'p \<Rightarrow> (exn + frame) \<times> 'p" where
  "fetch_by_region c keyword resolution geo p =
     (case build_payload c [keyword] None geo p of
        (Inl e, p1) \<Rightarrow> (Inl e, p1)
      | (Inr u, p1) \<Rightarrow> interest_by_region c resolution p1)"

definition fetch_related_queries ::
  "('p, 'q) client \<Rightarrow> string \<Rightarrow> string \<Rightarrow> 'p \<Rightarrow> (exn + 'q) \<times> 'p" where
  "fetch_related_queries c keyword geo p =
     (case build_payload c [keyword] None geo p of
        (Inl e, p1) \<Rightarrow> (Inl e, p1)
      | (Inr u, p1) \<Rightarrow> related_queries c p1)"

text \<open>
  Each query function calls \<open>self.async_retry(fetch)\<close>, with the defaults \<open>retries=3\<close>
  and \<open>delay=5\<close>.
\<close>

definition get_interest_over_time ::
  "('p, 'q) client \<Rightarrow> (nat \<Rightarrow> real) \<Rightarrow> string list \<Rightarrow> string \<Rightarrow> string \<Rightarrow> 'p world
     \<Rightarrow> (exn + frame option) \<times> 'p world" where
  "get_interest_over_time c rng keywords timeframe geo s =
     async_retry (fetch_over_time c keywords timeframe geo) 3 5 rng s"

definition get_interest_by_region ::
  "('p, 'q) client \<Rightarrow> (nat \<Rightarrow> real) \<Rightarrow> string \<Rightarrow> string \<Rightarrow> string \<Rightarrow> 'p world
     \<Rightarrow> (exn + frame option) \<times> 'p world" where
  "get_interest_by_region c rng keyword resolution geo s =
     async_retry (fetch_by_region c keyword resolution geo) 3 5 rng s"

definition get_related_queries ::
  "('p, 'q) client \<Rightarrow> (nat \<Rightarrow> real) \<Rightarrow> string \<Rightarrow> string \<Rightarrow> 'p world
     \<Rightarrow> (exn + 'q option) \<times> 'p world" where
  "get_related_queries c rng keyword geo s =
     async_retry (fetch_related_queries c keyword geo) 3 5 rng s"

section \<open>Tables and plots\<close>

text \<open>\<open>DataFrame.empty\<close>: one of the two axes has length 0.\<close>

definition frame_empty :: "frame \<Rightarrow> bool" where
  "frame_empty df \<longleftrightarrow> df_index df = [] \<or> df_columns df = []"

text \<open>
  \<open>data.reset_index(inplace=True)\<close> of pandas, on a single-level index: the index becomes
  a new first column, named after the index, or \<open>index\<close> when the index has no name
  (\<open>level_0\<close> when a column \<open>index\<close> exists), and the table gets the default index
  \<open>0, 1, ...\<close> without a name. When a column of that name exists already, pandas raises
  \<open>ValueError\<close> and leaves the table as it was. \<open>Inr\<close> holds the content of the same
  object after the call: the call changes the object it is given.
\<close>

definition reset_index :: "frame \<Rightarrow> exn + frame" where
  "reset_index df =
     (let names = map fst (df_columns df);
          name = (case df_index_name df of
                    Some n \<Rightarrow> n
                  | None \<Rightarrow> if ''index'' \<in> set names then ''level_0'' else ''index'')
      in if name \<in> set names
         then Inl (Exn ''ValueError'' (''cannot insert '' @ name @ '', already exists''))
         else Inr \<lparr>df_index_name = None,
                   df_index = map (\<lambda>i. Num (int i)) [0..<length (df_index df)],
                   df_columns = (name, df_index df) # df_columns df\<rparr>)"

text \<open>
  The two plot functions return what they raise or \<open>()\<close>, the content of the object
  \<open>data\<close> after the call (the caller's variable refers to the same object), and the
  state. Each call of the plotting library is recorded before its outcome is known.
\<close>

definition plot_interest_over_time ::
  "'f renderer \<Rightarrow> frame \<Rightarrow> string \<Rightarrow> 'p world \<Rightarrow> (exn + unit) \<times> frame \<times> 'p world" where
  "plot_interest_over_time rdr data title s =
     (case reset_index data of
        Inl e \<Rightarrow> (Inl e, data, s)
      | Inr d \<Rightarrow>
          (let y = butlast (map fst (df_columns d));
               s1 = emit (PxLine d ''date'' y title) s
           in case px_line rdr d ''date'' y title of
                Inl e \<Rightarrow> (Inl e, d, s1)
              | Inr fig \<Rightarrow>
                  (let s2 = emit (UpdateLayout (AxisTitles ''Date'' ''Search Interest'')) s1
                   in case update_layout rdr fig (AxisTitles ''Date'' ''Search Interest'') of
                        Inl e \<Rightarrow> (Inl e, d, s2)
                      | Inr fig2 \<Rightarrow>
                          (let s3 = emit Show s2
                           in case show_fig rdr fig2 of
                                Inl e \<Rightarrow> (Inl e, d, s3)
                              | Inr u \<Rightarrow> (Inr (), d, s3)))))"

definition plot_interest_by_region ::
  "'f renderer \<Rightarrow> frame \<Rightarrow> string \<Rightarrow> string \<Rightarrow> 'p world \<Rightarrow> (exn + unit) \<times> frame \<times> 'p world" where
  "plot_interest_by_region rdr data keyword title s =
     (case reset_index data of
        Inl e \<Rightarrow> (Inl e, data, s)
      | Inr d \<Rightarrow>
          (let s1 = emit (PxChoropleth d (df_index d) ''country names'' keyword title ''Viridis'') s
           in case px_choropleth rdr d (df_index d) ''country names'' keyword title ''Viridis'' of
                Inl e \<Rightarrow> (Inl e, d, s1)
              | Inr fig \<Rightarrow>
                  (let s2 = emit (UpdateLayout (Geo False False)) s1
                   in case update_layout rdr fig (Geo False False) of
                        Inl e \<Rightarrow> (Inl e, d, s2)
                      | Inr fig2 \<Rightarrow>
                          (let s3 = emit Show s2
                           in case show_fig rdr fig2 of
                                Inl e \<Rightarrow> (Inl e, d, s3)
                              | Inr u \<Rightarrow> (Inr (), d, s3)))))"

section \<open>\<open>main\<close>\<close>

text \<open>
  \<open>try: body except Exception as e: handler\<close>. The handler runs in the state the body
  left behind.
\<close>

definition try_except ::
  "('s \<Rightarrow> (exn + unit) \<times> 's) \<Rightarrow> (exn \<Rightarrow> 's \<Rightarrow> (exn + unit) \<times> 's) \<Rightarrow> 's \<Rightarrow> (exn + unit) \<times> 's" where
  "try_except body handler s =
     (case body s of
        (Inl e, s1) \<Rightarrow> handler e s1
      | (Inr v, s1) \<Rightarrow> (Inr v, s1))"

text \<open>What reading \<open>.empty\<close> of \<open>None\<close> raises.\<close>

definition none_has_no_empty :: exn where
  "none_has_no_empty =
     Exn ''AttributeError''
       ([CHR 0x27] @ ''NoneType'' @ [CHR 0x27] @ '' object has no attribute ''
          @ [CHR 0x27] @ ''empty'' @ [CHR 0x27])"

text \<open>The body of the first \<open>try\<close> of \<open>main\<close> (lines 106 to 110).\<close>

definition trends_body ::
  "('p, 'q) client \<Rightarrow> 'f renderer \<Rightarrow> (nat \<Rightarrow> real) \<Rightarrow> string list \<Rightarrow> string \<Rightarrow> string
     \<Rightarrow> 'p world \<Rightarrow> (exn + unit) \<times> 'p world" where
  "trends_body c rdr rng keywords timeframe geo s =
     (case get_interest_over_time c rng keywords timeframe geo s of
        (Inl e, s1) \<Rightarrow> (Inl e, s1)
      | (Inr None, s1) \<Rightarrow> (Inl none_has_no_empty, s1)
      | (Inr (Some df), s1) \<Rightarrow>
          if frame_empty df
          then (Inr (), print (Text ''No data retrieved for interest over time.'') s1)
          else (case plot_interest_over_time rdr df ''Emerging Trends in the US'' s1 of
                  (r, df2, s2) \<Rightarrow> (r, s2)))"

text \<open>The body of the second \<open>try\<close> (lines 116 to 120); \<open>resolution\<close> has its default.\<close>

definition region_body ::
  "('p, 'q) client \<Rightarrow> 'f renderer \<Rightarrow> (nat \<Rightarrow> real) \<Rightarrow> string
     \<Rightarrow> 'p world \<Rightarrow> (exn + unit) \<times> 'p world" where
  "region_body c rdr rng geo s =
     (case get_interest_by_region c rng ''Holiday Sales'' ''COUNTRY'' geo s of
        (Inl e, s1) \<Rightarrow> (Inl e, s1)
      | (Inr None, s1) \<Rightarrow> (Inl none_has_no_empty, s1)
      | (Inr (Some df), s1) \<Rightarrow>
          if frame_empty df
          then (Inr (), print (Text ''No data retrieved for regional interest.'') s1)
          else (case plot_interest_by_region rdr df ''Holiday Sales'' ''Regional Interest in the US'' s1 of
                  (r, df2, s2) \<Rightarrow> (r, s2)))"

text \<open>
  \<open>main\<close>: the constructor of the client (outside both \<open>try\<close> blocks), then the two
  steps, each in its own \<open>try\<close>.
\<close>

definition main ::
  "('p, 'q) client \<Rightarrow> 'f renderer \<Rightarrow> (nat \<Rightarrow> real) \<Rightarrow> 'p world \<Rightarrow> (exn + unit) \<times> 'p world" where
  "main c rdr rng s =
     (case trend_req c ''en-US'' 360 (provider s) of
        (Inl e, p) \<Rightarrow> (Inl e, s\<lparr>provider := p\<rparr>)
      | (Inr u, p) \<Rightarrow>
          (let keywords = [''Black Friday Deals'', ''Cyber Monday Deals'', ''Holiday Sales''];
               geo = ''US'';
               timeframe = ''today 12-m''
           in case try_except (trends_body c rdr rng keywords timeframe geo)
                     (\<lambda>e s1. (Inr (),
                        print (Text (''Failed to fetch interest over time: '' @ exn_str e)) s1))
                     (s\<lparr>provider := p\<rparr>) of
                (Inl e, s2) \<Rightarrow> (Inl e, s2)
              | (Inr v, s2) \<Rightarrow>
                  try_except (region_body c rdr rng geo)
                    (\<lambda>e s3. (Inr (),
                       print (Text (''Failed to fetch regional interest: '' @ exn_str e)) s3))
                    s2))"

section \<open>Test doubles\<close>



text \<open>
  A fake client whose state counts the retrievals: the first \<open>failures\<close> retrievals
  raise, the later ones return \<open>table\<close>.
\<close>

definition fake_client :: "nat \<Rightarrow> frame \<Rightarrow> (nat, string) client" where
  "fake_client failures table =
     \<lparr>trend_req = (\<lambda>hl tz n. (Inr (), n)),
      build_payload = (\<lambda>keywords timeframe geo n. (Inr (), n)),
      interest_over_time = (\<lambda>n.
        (if n < failures then Inl (Exn ''ResponseError'' ''code 429'') else Inr table, Suc n)),
      interest_by_region = (\<lambda>resolution n.
        (if n < failures then Inl (Exn ''ResponseError'' ''code 429'') else Inr table, Suc n)),
      related_queries = (\<lambda>n.
        (if n < failures then Inl (Exn ''ResponseError'' ''code 429'') else Inr ''top'', Suc n))\<rparr>"

text \<open>An operation that raises at every invocation, each time with a longer text.\<close>

definition always_failing :: "nat \<Rightarrow> (exn + string) \<times> nat" where
  "always_failing n = (Inl (Exn ''ConnectionError'' (replicate (Suc n) CHR ''x'')), Suc n)"

text \<open>An operation that raises at its first invocation and returns a payload afterwards.\<close>

definition failing_once :: "nat \<Rightarrow> (exn + string) \<times> nat" where
  "failing_once n =
     (if n = 0 then Inl (Exn ''TimeoutError'' ''timed out'') else Inr ''payload'', Suc n)"

text \<open>A plotting library that accepts everything.\<close>

definition fake_renderer :: "unit renderer" where
  "fake_renderer =
     \<lparr>px_line = (\<lambda>data x y title. Inr ()),
      px_choropleth = (\<lambda>data locations locationmode color title scale. Inr ()),
      update_layout = (\<lambda>fig l. Inr ()),
      show_fig = (\<lambda>fig. Inr ())\<rparr>"

text \<open>A random number generator that alternates between two values of \<open>[0, 2)\<close>.\<close>

definition jitter :: "nat \<Rightarrow> real" where
  "jitter i = (if even i then 1 / 2 else 3 / 2)"

definition start :: "nat world" where
  "start = \<lparr>provider = 0, draws = 0, trace = []\<rparr>"

definition trend_table :: frame where
  "trend_table =
     \<lparr>df_index_name = Some ''date'',
      df_index = [Str ''2024-11-24'', Str ''2024-12-01''],
      df_columns = [(''Holiday Sales'', [Num 61, Num 100]), (''isPartial'', [Flag False, Flag True])]\<rparr>"

definition region_table :: frame where
  "region_table =
     \<lparr>df_index_name = Some ''geoName'',
      df_index = [Str ''Canada'', Str ''United States''],
      df_columns = [(''Holiday Sales'', [Num 37, Num 100])]\<rparr>"

definition empty_table :: frame where
  "empty_table = \<lparr>df_index_name = None, df_index = [], df_columns = []\<rparr>"

section \<open>Properties of \<open>async_retry\<close>\<close>

lemma retry_success:
  "attempt < retries \<Longrightarrow> func (provider s) = (Inr v, p) \<Longrightarrow>
   async_retry_from attempt func retries delay rng s = (Inr (Some v), emit Await (s\<lparr>provider := p\<rparr>))"
  by (simp add: async_retry_from.simps)

lemma retry_exhausted:
  "attempt = retries - 1 \<Longrightarrow> func (provider s) = (Inl e, p) \<Longrightarrow>
   async_retry_from attempt func retries delay rng s =
     (Inl e, print (Text (''Max retries reached. Last error: '' @ exn_str e)) (emit Await (s\<lparr>provider := p\<rparr>)))"
  by (simp add: async_retry_from.simps)

lemma retry_again:
  "attempt < retries - 1 \<Longrightarrow> func (provider s) = (Inl e, p) \<Longrightarrow>
   async_retry_from attempt func retries delay rng s =
     async_retry_from (attempt + 1) func retries delay rng
       (s\<lparr>provider := p, draws := Suc (draws s),
          trace := trace s @ backoff delay rng (draws s) attempt 0\<rparr>)"
  by (subst async_retry_from.simps)
     (simp add: uniform02_def print_def sleep_def emit_def backoff_def Let_def)

lemma all_fail_from:
  "retries - attempt = int (Suc n) \<Longrightarrow>
   \<forall>i\<le>n. isl (fst (func (state_after func i (provider s)))) \<Longrightarrow>
   \<exists>e. fst (func (state_after func n (provider s))) = Inl e \<and>
     async_retry_from attempt func retries delay rng s =
       (Inl e, s\<lparr>provider := state_after func (Suc n) (provider s),
                  draws := draws s + n,
                  trace := trace s @ concat (map (backoff delay rng (draws s) attempt) [0..<n])
                     @ [Await, Print (Text (''Max retries reached. Last error: '' @ exn_str e))]\<rparr>)"
proof (induction n arbitrary: attempt s)
  case 0
  then obtain e p where f: "func (provider s) = (Inl e, p)"
    by (cases "func (provider s)") (auto simp: isl_def)
  from 0 have "attempt = retries - 1" by simp
  from retry_exhausted [of attempt retries func s e p delay rng, OF this f] f show ?case
    by (simp add: print_def emit_def)
next
  case (Suc n)
  from Suc.prems(2) have "isl (fst (func (state_after func 0 (provider s))))" by blast
  then obtain e p where f: "func (provider s) = (Inl e, p)"
    by (cases "func (provider s)") (auto simp: isl_def)
  let ?s = "s\<lparr>provider := p, draws := Suc (draws s),
          trace := trace s @ backoff delay rng (draws s) attempt 0\<rparr>"
  from Suc.prems have lt: "attempt < retries - 1" by simp
  have r: "retries - (attempt + 1) = int (Suc n)" using Suc.prems by simp
  have a: "\<forall>i\<le>n. isl (fst (func (state_after func i (provider ?s))))"
  proof (intro allI impI)
    fix i assume "i \<le> n"
    then have "Suc i \<le> Suc n" by simp
    with Suc.prems(2) have "isl (fst (func (state_after func (Suc i) (provider s))))" by blast
    then show "isl (fst (func (state_after func i (provider ?s))))"
      by (simp add: f)
  qed
  from Suc.IH [OF r a] obtain e' where
    e': "fst (func (state_after func n (provider ?s))) = Inl e'" and
    run: "async_retry_from (attempt + 1) func retries delay rng ?s =
       (Inl e', ?s\<lparr>provider := state_after func (Suc n) (provider ?s),
                  draws := draws ?s + n,
                  trace := trace ?s @ concat (map (backoff delay rng (draws ?s) (attempt + 1)) [0..<n])
                     @ [Await, Print (Text (''Max retries reached. Last error: '' @ exn_str e'))]\<rparr>)"
    by blast
  have shift: "map (backoff delay rng (draws s) attempt) [0..<Suc n] =
      backoff delay rng (draws s) attempt 0 # map (backoff delay rng (Suc (draws s)) (attempt + 1)) [0..<n]"
    by (simp add: upt_conv_Cons map_Suc_upt [symmetric] backoff_def del: upt_Suc)
  show ?case
    apply (rule exI [of _ e'])
    using e' run retry_again [of attempt retries func s e p delay rng, OF lt f]
    by (simp add: f shift del: upt_Suc)
qed


lemma succeed_from:
  "int (Suc n) \<le> retries - attempt \<Longrightarrow>
   \<forall>i<n. isl (fst (func (state_after func i (provider s)))) \<Longrightarrow>
   fst (func (state_after func n (provider s))) = Inr v \<Longrightarrow>
   async_retry_from attempt func retries delay rng s =
     (Inr (Some v), s\<lparr>provider := state_after func (Suc n) (provider s),
                  draws := draws s + n,
                  trace := trace s @ concat (map (backoff delay rng (draws s) attempt) [0..<n])
                     @ [Await]\<rparr>)"
proof (induction n arbitrary: attempt s)
  case 0
  then obtain p where f: "func (provider s) = (Inr v, p)"
    by (cases "func (provider s)") auto
  from 0 have "attempt < retries" by simp
  from retry_success [of attempt retries func s v p delay rng, OF this f] f show ?case
    by (simp add: emit_def)
next
  case (Suc n)
  from Suc.prems(2) have "isl (fst (func (state_after func 0 (provider s))))" by blast
  then obtain e p where f: "func (provider s) = (Inl e, p)"
    by (cases "func (provider s)") (auto simp: isl_def)
  let ?s = "s\<lparr>provider := p, draws := Suc (draws s),
          trace := trace s @ backoff delay rng (draws s) attempt 0\<rparr>"
  from Suc.prems have lt: "attempt < retries - 1" by simp
  have r: "int (Suc n) \<le> retries - (attempt + 1)" using Suc.prems by simp
  have a: "\<forall>i<n. isl (fst (func (state_after func i (provider ?s))))"
  proof (intro allI impI)
    fix i assume "i < n"
    then have "Suc i < Suc n" by simp
    with Suc.prems(2) have "isl (fst (func (state_after func (Suc i) (provider s))))" by blast
    then show "isl (fst (func (state_after func i (provider ?s))))"
      by (simp add: f)
  qed
  have v: "fst (func (state_after func n (provider ?s))) = Inr v"
    using Suc.prems(3) by (simp add: f)
  have shift: "map (backoff delay rng (draws s) attempt) [0..<Suc n] =
      backoff delay rng (draws s) attempt 0 # map (backoff delay rng (Suc (draws s)) (attempt + 1)) [0..<n]"
    by (simp add: upt_conv_Cons map_Suc_upt [symmetric] backoff_def del: upt_Suc)
  show ?case
    using Suc.IH [OF r a v] retry_again [of attempt retries func s e p delay rng, OF lt f]
    by (simp add: f shift del: upt_Suc)
qed

lemma sleeps_append: "sleeps (xs @ ys) = sleeps xs @ sleeps ys"
  by (induction xs rule: sleeps.induct) auto



lemma invocations_append: "invocations (xs @ ys) = invocations xs + invocations ys"
  by (simp add: invocations_def)

lemma invocations_Nil: "invocations [] = 0"
  by (simp add: invocations_def)

lemma invocations_Cons: "invocations (ev # evs) = (if ev = Await then 1 else 0) + invocations evs"
  by (simp add: invocations_def)

lemma invocations_backoffs:
  "invocations (concat (map (backoff delay rng d attempt) [0..<n])) = n"
  by (induction n) (simp_all add: invocations_append invocations_Nil invocations_Cons backoff_def)

lemma sleeps_backoffs:
  "sleeps (concat (map (backoff delay rng d attempt) [0..<n])) = map (\<lambda>i. delay + rng (d + i)) [0..<n]"
  by (induction n) (simp_all add: sleeps_append backoff_def)

text \<open>
  C1: with \<open>R \<ge> 1\<close> and an operation that raises at each of the \<open>R\<close> invocations of the
  run, \<open>async_retry\<close> invokes it exactly \<open>R\<close> times and raises the exception of the last
  invocation, unchanged, after printing \<open>Max retries reached. Last error:\<close> with its text as
  the last effect of the call; the \<open>R - 1\<close> attempts before it each end with a message
  and a sleep.
\<close>

theorem async_retry_always_failing:
  assumes R: "1 \<le> R"
    and fails: "\<forall>i<nat R. isl (fst (func (state_after func i (provider s))))"
  shows "\<exists>e s'. async_retry func R delay rng s = (Inl e, s')
           \<and> fst (func (state_after func (nat R - 1) (provider s))) = Inl e
           \<and> provider s' = state_after func (nat R) (provider s)
           \<and> invocations (trace s') = invocations (trace s) + nat R
           \<and> trace s' = trace s @ concat (map (backoff delay rng (draws s) 0) [0..<nat R - 1])
                @ [Await, Print (Text (''Max retries reached. Last error: '' @ exn_str e))]"
proof -
  obtain n where n: "nat R = Suc n" using R by (cases "nat R") auto
  then have r: "R - 0 = int (Suc n)" using R by linarith
  have a: "\<forall>i\<le>n. isl (fst (func (state_after func i (provider s))))"
    using fails n by (simp add: less_Suc_eq_le)
  from all_fail_from [OF r a, of delay rng] obtain e where
    e: "fst (func (state_after func n (provider s))) = Inl e" and
    run: "async_retry_from 0 func R delay rng s =
       (Inl e, s\<lparr>provider := state_after func (Suc n) (provider s),
                  draws := draws s + n,
                  trace := trace s @ concat (map (backoff delay rng (draws s) 0) [0..<n])
                     @ [Await, Print (Text (''Max retries reached. Last error: '' @ exn_str e))]\<rparr>)"
    by blast
  show ?thesis
    apply (rule exI [of _ e])
    using e run n
    by (simp add: async_retry_def invocations_append invocations_backoffs invocations_Nil invocations_Cons)
qed

lemma state_after_always_failing: "state_after always_failing i n = n + i"
  by (induction i arbitrary: n) (simp_all add: always_failing_def)

text \<open>
  Three retries without delay on an operation that always raises: three invocations, two
  sleeps, and the third exception comes out.
\<close>

theorem async_retry_always_failing_witness:
  "(1::int) \<le> 3
   \<and> isl (fst (always_failing 0)) \<and> isl (fst (always_failing 1)) \<and> isl (fst (always_failing 2))
   \<and> fst (async_retry always_failing 3 0 jitter start) = Inl (Exn ''ConnectionError'' ''xxx'')
   \<and> invocations (trace (snd (async_retry always_failing 3 0 jitter start))) = 3
   \<and> trace (snd (async_retry always_failing 3 0 jitter start)) =
       [Await, Print (Retrying (1 / 2) 1), Sleep (1 / 2),
        Await, Print (Retrying (3 / 2) 2), Sleep (3 / 2),
        Await, Print (Text ''Max retries reached. Last error: xxx'')]"
proof -
  have h: "\<forall>i<nat 3. isl (fst (always_failing (state_after always_failing i (provider start))))"
    by (simp add: always_failing_def)
  have two: "[0..<2] = [0, Suc 0]" by (simp add: upt_conv_Cons)
  from async_retry_always_failing [of 3 always_failing start 0 jitter, OF _ h]
  obtain e s' where run: "async_retry always_failing 3 0 jitter start = (Inl e, s')"
    and e: "fst (always_failing (state_after always_failing (nat 3 - 1) (provider start))) = Inl e"
    and i: "invocations (trace s') = invocations (trace start) + nat 3"
    and t: "trace s' = trace start @ concat (map (backoff 0 jitter (draws start) 0) [0..<nat 3 - 1])
                @ [Await, Print (Text (''Max retries reached. Last error: '' @ exn_str e))]"
    by auto
  from e have e': "e = Exn ''ConnectionError'' ''xxx''"
    by (simp add: state_after_always_failing always_failing_def start_def eval_nat_numeral)
  have g: "isl (fst (always_failing 0)) \<and> isl (fst (always_failing 1)) \<and> isl (fst (always_failing 2))"
    by (simp add: always_failing_def)
  show ?thesis
    using g run i t e'
    by (simp add: start_def invocations_def backoff_def jitter_def two)
qed


text \<open>
  C2: with \<open>1 \<le> k \<le> R\<close> and an operation whose first \<open>k - 1\<close> invocations raise and
  whose invocation \<open>k\<close> returns \<open>v\<close>, \<open>async_retry\<close> invokes it exactly \<open>k\<close> times and
  returns \<open>v\<close>; it sleeps \<open>k - 1\<close> times, once after each failed attempt, and the
  successful invocation is the last effect of the call, so no sleep follows it.
\<close>

theorem async_retry_first_success:
  assumes k: "1 \<le> k" "int k \<le> R"
    and fails: "\<forall>i<k - 1. isl (fst (func (state_after func i (provider s))))"
    and succeeds: "fst (func (state_after func (k - 1) (provider s))) = Inr v"
  shows "\<exists>s'. async_retry func R delay rng s = (Inr (Some v), s')
           \<and> provider s' = state_after func k (provider s)
           \<and> invocations (trace s') = invocations (trace s) + k
           \<and> length (sleeps (trace s')) = length (sleeps (trace s)) + (k - 1)
           \<and> last (trace s') = Await
           \<and> trace s' = trace s @ concat (map (backoff delay rng (draws s) 0) [0..<k - 1]) @ [Await]"
proof -
  obtain n where n: "k = Suc n" using k(1) by (cases k) auto
  have r: "int (Suc n) \<le> R - 0" using k(2) n by simp
  have a: "\<forall>i<n. isl (fst (func (state_after func i (provider s))))"
    using fails n by simp
  have v: "fst (func (state_after func n (provider s))) = Inr v"
    using succeeds n by simp
  show ?thesis
    using succeed_from [OF r a v, of delay rng] n
    by (simp add: async_retry_def invocations_append invocations_backoffs invocations_Nil
        invocations_Cons sleeps_append sleeps_backoffs)
qed

text \<open>
  An operation that raises once and then returns, with \<open>R = 3\<close>: two invocations, one
  sleep, and the payload is the result.
\<close>

theorem async_retry_first_success_witness:
  "(1::nat) \<le> 2 \<and> int 2 \<le> 3
   \<and> isl (fst (failing_once 0))
   \<and> fst (failing_once (state_after failing_once (2 - 1) (provider start))) = Inr ''payload''
   \<and> fst (async_retry failing_once 3 5 jitter start) = Inr (Some ''payload'')
   \<and> invocations (trace (snd (async_retry failing_once 3 5 jitter start))) = 2
   \<and> sleeps (trace (snd (async_retry failing_once 3 5 jitter start))) = [11 / 2]
   \<and> trace (snd (async_retry failing_once 3 5 jitter start)) =
        [Await, Print (Retrying (11 / 2) 1), Sleep (11 / 2), Await]"
proof -
  have h1: "\<forall>i<2 - 1. isl (fst (failing_once (state_after failing_once i (provider start))))"
    by (simp add: failing_once_def start_def)
  have h2: "fst (failing_once (state_after failing_once (2 - 1) (provider start))) = Inr ''payload''"
    by (simp add: failing_once_def start_def)
  from async_retry_first_success [of 2 3 failing_once start "''payload''" 5 jitter, OF _ _ h1 h2]
  obtain s' where run: "async_retry failing_once 3 5 jitter start = (Inr (Some ''payload''), s')"
    and t: "trace s' = trace start @ concat (map (backoff 5 jitter (draws start) 0) [0..<2 - 1]) @ [Await]"
    by auto
  have g: "isl (fst (failing_once 0))"
    by (simp add: failing_once_def)
  show ?thesis
    using g h2 run t
    by (simp add: start_def invocations_Nil invocations_Cons backoff_def jitter_def)
qed



text \<open>
  C9: called with \<open>retries = 0\<close>, \<open>async_retry\<close> returns \<open>None\<close> without raising, and
  the state is the one it started from: the operation was not invoked (no \<open>Await\<close> was
  added and the provider state is untouched), nothing was printed and nothing slept.
\<close>

theorem async_retry_zero_retries:
  "async_retry func 0 delay rng s = (Inr None, s)"
  by (simp add: async_retry_def async_retry_from.simps)

section \<open>Properties of the query functions, the plots and \<open>main\<close>\<close>

lemma retry_first_event:
  "attempt < retries \<Longrightarrow>
   \<exists>t. trace (snd (async_retry_from attempt func retries delay rng s)) = trace s @ Await # t"
proof (induction "nat (retries - attempt)" arbitrary: attempt s)
  case 0
  then show ?case by simp
next
  case (Suc n)
  obtain x p where f: "func (provider s) = (x, p)" by (cases "func (provider s)")
  show ?case
  proof (cases x)
    case (Inr v)
    with Suc.prems f show ?thesis
      by (simp add: retry_success [of attempt retries func s v p] emit_def)
  next
    case (Inl e)
    show ?thesis
    proof (cases "attempt < retries - 1")
      case False
      with Suc.prems have "attempt = retries - 1" by simp
      from retry_exhausted [of attempt retries func s e p delay rng, OF this] f Inl
      show ?thesis by (simp add: emit_def print_def)
    next
      case lt: True
      let ?s = "s\<lparr>provider := p, draws := Suc (draws s),
        trace := trace s @ backoff delay rng (draws s) attempt 0\<rparr>"
      have n: "n = nat (retries - (attempt + 1))" using Suc.hyps(2) by simp
      have lt': "attempt + 1 < retries" using lt by simp
      from Suc.hyps(1) [OF n lt', of ?s] obtain t where
        "trace (snd (async_retry_from (attempt + 1) func retries delay rng ?s)) = trace ?s @ Await # t"
        by blast
      then show ?thesis
        using retry_again [of attempt retries func s e p delay rng, OF lt] f Inl
        by (simp add: backoff_def)
    qed
  qed
qed

lemma retry_result_deterministic:
  "\<forall>p p'. fst (func p) = fst (func p') \<Longrightarrow>
   fst (async_retry_from attempt func retries delay rng s) =
   fst (async_retry_from attempt func retries delay rng' s')"
proof (induction "nat (retries - attempt)" arbitrary: attempt s s')
  case 0
  then show ?case by (simp add: async_retry_from.simps)
next
  case (Suc n)
  then have a: "attempt < retries" by simp
  obtain x p where f: "func (provider s) = (x, p)" by (cases "func (provider s)")
  obtain x' p' where f': "func (provider s') = (x', p')" by (cases "func (provider s')")
  from Suc.prems have "fst (func (provider s)) = fst (func (provider s'))" by blast
  with f f' have x: "x' = x" by simp
  show ?case
  proof (cases x)
    case (Inr v)
    with a f f' x show ?thesis
      by (simp add: retry_success [of attempt retries func _ v])
  next
    case (Inl e)
    show ?thesis
    proof (cases "attempt < retries - 1")
      case False
      with a have l: "attempt = retries - 1" by simp
      show ?thesis
        using retry_exhausted [of attempt retries func s e p delay rng, OF l]
          retry_exhausted [of attempt retries func s' e p' delay rng', OF l] f f' x Inl
        by simp
    next
      case lt: True
      have n: "n = nat (retries - (attempt + 1))" using Suc.hyps(2) by simp
      show ?thesis
        using retry_again [of attempt retries func s e p delay rng, OF lt]
          retry_again [of attempt retries func s' e p' delay rng', OF lt]
          f f' x Inl Suc.hyps(1) [OF n Suc.prems]
        by simp
    qed
  qed
qed

text \<open>
  C7: against a provider that answers a request the same way whatever happened before
  (the outcome of the closure does not depend on the provider state it starts from), a
  second call of a query function with the same arguments, made after the first one, has
  the same result as the first. The sleeps of the two calls may differ; the results do
  not.
\<close>

theorem facade_idempotent:
  assumes "\<forall>p p'. fst (fetch_over_time c keywords timeframe geo p)
                    = fst (fetch_over_time c keywords timeframe geo p')"
    and "\<forall>p p'. fst (fetch_by_region c keyword resolution geo p)
                    = fst (fetch_by_region c keyword resolution geo p')"
    and "\<forall>p p'. fst (fetch_related_queries c keyword geo p)
                    = fst (fetch_related_queries c keyword geo p')"
  shows "fst (get_interest_over_time c rng keywords timeframe geo
                (snd (get_interest_over_time c rng keywords timeframe geo s)))
           = fst (get_interest_over_time c rng keywords timeframe geo s)
       \<and> fst (get_interest_by_region c rng keyword resolution geo
                (snd (get_interest_by_region c rng keyword resolution geo s)))
           = fst (get_interest_by_region c rng keyword resolution geo s)
       \<and> fst (get_related_queries c rng keyword geo
                (snd (get_related_queries c rng keyword geo s)))
           = fst (get_related_queries c rng keyword geo s)"
  unfolding get_interest_over_time_def get_interest_by_region_def get_related_queries_def
    async_retry_def
  by (intro conjI retry_result_deterministic [OF assms(1)] retry_result_deterministic [OF assms(2)]
      retry_result_deterministic [OF assms(3)])

text \<open>
  The fake client without failures answers every request with its table; both calls
  return it.
\<close>

theorem facade_idempotent_witness:
  "(\<forall>p p'. fst (fetch_over_time (fake_client 0 trend_table) [''Holiday Sales''] ''today 12-m'' ''US'' p)
            = fst (fetch_over_time (fake_client 0 trend_table) [''Holiday Sales''] ''today 12-m'' ''US'' p'))
   \<and> (\<forall>p p'. fst (fetch_by_region (fake_client 0 trend_table) ''Holiday Sales'' ''COUNTRY'' ''US'' p)
            = fst (fetch_by_region (fake_client 0 trend_table) ''Holiday Sales'' ''COUNTRY'' ''US'' p'))
   \<and> (\<forall>p p'. fst (fetch_related_queries (fake_client 0 trend_table) ''Holiday Sales'' ''US'' p)
            = fst (fetch_related_queries (fake_client 0 trend_table) ''Holiday Sales'' ''US'' p'))
   \<and> fst (get_interest_over_time (fake_client 0 trend_table) jitter [''Holiday Sales''] ''today 12-m'' ''US''
          (snd (get_interest_over_time (fake_client 0 trend_table) jitter [''Holiday Sales''] ''today 12-m'' ''US'' start)))
       = Inr (Some trend_table)
   \<and> fst (get_interest_over_time (fake_client 0 trend_table) jitter [''Holiday Sales''] ''today 12-m'' ''US'' start)
       = Inr (Some trend_table)"
proof -
  let ?c = "fake_client 0 trend_table"
  have h1: "\<forall>p p'. fst (fetch_over_time ?c [''Holiday Sales''] ''today 12-m'' ''US'' p)
            = fst (fetch_over_time ?c [''Holiday Sales''] ''today 12-m'' ''US'' p')"
    by (simp add: fetch_over_time_def fake_client_def)
  have h2: "\<forall>p p'. fst (fetch_by_region ?c ''Holiday Sales'' ''COUNTRY'' ''US'' p)
            = fst (fetch_by_region ?c ''Holiday Sales'' ''COUNTRY'' ''US'' p')"
    by (simp add: fetch_by_region_def fake_client_def)
  have h3: "\<forall>p p'. fst (fetch_related_queries ?c ''Holiday Sales'' ''US'' p)
            = fst (fetch_related_queries ?c ''Holiday Sales'' ''US'' p')"
    by (simp add: fetch_related_queries_def fake_client_def)
  have one: "fst (get_interest_over_time ?c jitter [''Holiday Sales''] ''today 12-m'' ''US'' start)
       = Inr (Some trend_table)"
    by (simp add: get_interest_over_time_def async_retry_def async_retry_from.simps
        fetch_over_time_def fake_client_def start_def)
  show ?thesis
    using h1 h2 h3 one facade_idempotent [OF h1 h2 h3, of jitter start]
    by simp
qed


lemma plot_interest_over_time_frame:
  "fst (snd (plot_interest_over_time rdr data title s)) =
     (case reset_index data of Inl e \<Rightarrow> data | Inr d \<Rightarrow> d)"
  by (simp add: plot_interest_over_time_def Let_def split: sum.splits)

lemma plot_interest_by_region_frame:
  "fst (snd (plot_interest_by_region rdr data keyword title s)) =
     (case reset_index data of Inl e \<Rightarrow> data | Inr d \<Rightarrow> d)"
  by (simp add: plot_interest_by_region_def Let_def split: sum.splits)

lemma reset_index_shape:
  "(case reset_index data of Inl e \<Rightarrow> data | Inr d \<Rightarrow> d) = data
   \<or> (\<exists>name. (case reset_index data of Inl e \<Rightarrow> data | Inr d \<Rightarrow> d) =
        \<lparr>df_index_name = None,
         df_index = map (\<lambda>i. Num (int i)) [0..<length (df_index data)],
         df_columns = (name, df_index data) # df_columns data\<rparr>)"
  by (auto simp: reset_index_def Let_def)

text \<open>
  C4 as stated fails: after either plot function the table that was passed in is not the
  table it was. \<open>reset_index(inplace=True)\<close> works on the caller's object, not on a copy.
\<close>

theorem plot_leaves_frame_unchanged_counterexample:
  "fst (snd (plot_interest_over_time fake_renderer trend_table ''Interest Over Time'' start))
     \<noteq> trend_table
   \<and> fst (snd (plot_interest_by_region fake_renderer region_table ''Holiday Sales''
                 ''Regional Interest'' start))
     \<noteq> region_table"
  by (simp add: plot_interest_over_time_frame plot_interest_by_region_frame reset_index_def
      trend_table_def region_table_def)

text \<open>
  C4, amended: each plot function leaves the table it is given in the state that
  \<open>reset_index\<close> produces: when \<open>reset_index\<close> raises, the table is unchanged;
  otherwise the former index is a new first column, the index is the default one, and
  the columns the table had follow unchanged, in their order.
\<close>

theorem plot_resets_index_in_place:
  "fst (snd (plot_interest_over_time rdr data title s)) =
     (case reset_index data of Inl e \<Rightarrow> data | Inr d \<Rightarrow> d)
   \<and> fst (snd (plot_interest_by_region rdr data keyword title s)) =
     (case reset_index data of Inl e \<Rightarrow> data | Inr d \<Rightarrow> d)
   \<and> (fst (snd (plot_interest_over_time rdr data title s)) = data
    \<or> (\<exists>name. fst (snd (plot_interest_over_time rdr data title s)) =
          \<lparr>df_index_name = None,
           df_index = map (\<lambda>i. Num (int i)) [0..<length (df_index data)],
           df_columns = (name, df_index data) # df_columns data\<rparr>))
   \<and> (fst (snd (plot_interest_by_region rdr data keyword title s)) = data
    \<or> (\<exists>name. fst (snd (plot_interest_by_region rdr data keyword title s)) =
          \<lparr>df_index_name = None,
           df_index = map (\<lambda>i. Num (int i)) [0..<length (df_index data)],
           df_columns = (name, df_index data) # df_columns data\<rparr>))"
  unfolding plot_interest_over_time_frame plot_interest_by_region_frame
  using reset_index_shape [of data] by simp

text \<open>
  The time-series table after \<open>plot_interest_over_time\<close>: the dates are now the first
  column.
\<close>

theorem plot_resets_index_in_place_witness:
  "fst (snd (plot_interest_over_time fake_renderer trend_table ''Interest Over Time'' start)) =
     \<lparr>df_index_name = None,
      df_index = [Num 0, Num 1],
      df_columns = [(''date'', [Str ''2024-11-24'', Str ''2024-12-01'']),
                    (''Holiday Sales'', [Num 61, Num 100]),
                    (''isPartial'', [Flag False, Flag True])]\<rparr>"
  using plot_resets_index_in_place [of fake_renderer trend_table "''Interest Over Time''" start]
  by (simp add: plot_interest_over_time_frame reset_index_def trend_table_def upt_conv_Cons)


lemma fetch_once:
  "0 < retries \<Longrightarrow> func (provider s) = (Inr v, p) \<Longrightarrow>
   async_retry func retries delay rng s = (Inr (Some v), s\<lparr>provider := p, trace := trace s @ [Await]\<rparr>)"
  by (simp add: async_retry_def retry_success [of 0 retries func s v p] emit_def)

text \<open>
  C6: when \<open>build_payload\<close> succeeds and the first retrieval returns an empty table, the
  query function returns that table after a single invocation, without a message or a
  sleep, and the step of \<open>main\<close> ends normally with exactly one more effect, the print of
  the \<open>No data retrieved\<close> message: no call to the plotting library. This holds for the
  time-series step and for the regional step.
\<close>

theorem empty_result_skips_rendering:
  assumes "build_payload c keywords (Some timeframe) geo (provider s) = (Inr (), p1)"
    and "interest_over_time c p1 = (Inr df, p2)"
    and "frame_empty df"
    and "build_payload c [''Holiday Sales''] None geo (provider s) = (Inr (), q1)"
    and "interest_by_region c ''COUNTRY'' q1 = (Inr rf, q2)"
    and "frame_empty rf"
  shows "get_interest_over_time c rng keywords timeframe geo s =
           (Inr (Some df), s\<lparr>provider := p2, trace := trace s @ [Await]\<rparr>)
       \<and> trends_body c rdr rng keywords timeframe geo s =
           (Inr (), s\<lparr>provider := p2,
              trace := trace s @ [Await, Print (Text ''No data retrieved for interest over time.'')]\<rparr>)
       \<and> get_interest_by_region c rng ''Holiday Sales'' ''COUNTRY'' geo s =
           (Inr (Some rf), s\<lparr>provider := q2, trace := trace s @ [Await]\<rparr>)
       \<and> region_body c rdr rng geo s =
           (Inr (), s\<lparr>provider := q2,
              trace := trace s @ [Await, Print (Text ''No data retrieved for regional interest.'')]\<rparr>)"
proof -
  have f1: "fetch_over_time c keywords timeframe geo (provider s) = (Inr df, p2)"
    using assms(1,2) by (simp add: fetch_over_time_def)
  have f2: "fetch_by_region c ''Holiday Sales'' ''COUNTRY'' geo (provider s) = (Inr rf, q2)"
    using assms(4,5) by (simp add: fetch_by_region_def)
  have g1: "get_interest_over_time c rng keywords timeframe geo s =
           (Inr (Some df), s\<lparr>provider := p2, trace := trace s @ [Await]\<rparr>)"
    unfolding get_interest_over_time_def
    using fetch_once [of 3 "fetch_over_time c keywords timeframe geo" s df p2 5 rng] f1 by simp
  have g2: "get_interest_by_region c rng ''Holiday Sales'' ''COUNTRY'' geo s =
           (Inr (Some rf), s\<lparr>provider := q2, trace := trace s @ [Await]\<rparr>)"
    unfolding get_interest_by_region_def
    using fetch_once [of 3 "fetch_by_region c ''Holiday Sales'' ''COUNTRY'' geo" s rf q2 5 rng] f2
    by simp
  show ?thesis
    using g1 g2 assms(3,6)
    by (simp add: trends_body_def region_body_def print_def emit_def)
qed

text \<open>
  The fake client with an empty table: each step is one invocation and one message.
\<close>

theorem empty_result_skips_rendering_witness:
  "build_payload (fake_client 0 empty_table) [''Holiday Sales''] (Some ''today 12-m'') ''US'' (provider start)
     = (Inr (), 0)
   \<and> interest_over_time (fake_client 0 empty_table) 0 = (Inr empty_table, 1)
   \<and> frame_empty empty_table
   \<and> build_payload (fake_client 0 empty_table) [''Holiday Sales''] None ''US'' (provider start) = (Inr (), 0)
   \<and> interest_by_region (fake_client 0 empty_table) ''COUNTRY'' 0 = (Inr empty_table, 1)
   \<and> trends_body (fake_client 0 empty_table) fake_renderer jitter [''Holiday Sales''] ''today 12-m'' ''US'' start
       = (Inr (), \<lparr>provider = 1, draws = 0,
            trace = [Await, Print (Text ''No data retrieved for interest over time.'')]\<rparr>)
   \<and> region_body (fake_client 0 empty_table) fake_renderer jitter ''US'' start
       = (Inr (), \<lparr>provider = 1, draws = 0,
            trace = [Await, Print (Text ''No data retrieved for regional interest.'')]\<rparr>)"
proof -
  let ?c = "fake_client 0 empty_table"
  have h1: "build_payload ?c [''Holiday Sales''] (Some ''today 12-m'') ''US'' (provider start) = (Inr (), 0)"
    by (simp add: fake_client_def start_def)
  have h2: "interest_over_time ?c 0 = (Inr empty_table, 1)"
    by (simp add: fake_client_def)
  have h3: "frame_empty empty_table"
    by (simp add: frame_empty_def empty_table_def)
  have h4: "build_payload ?c [''Holiday Sales''] None ''US'' (provider start) = (Inr (), 0)"
    by (simp add: fake_client_def start_def)
  have h5: "interest_by_region ?c ''COUNTRY'' 0 = (Inr empty_table, 1)"
    by (simp add: fake_client_def)
  show ?thesis
    using h1 h2 h3 h4 h5
      empty_result_skips_rendering [OF h1 h2 h3 h4 h5 h3, of jitter fake_renderer]
    by (simp add: start_def)
qed

text \<open>
  C8: when the regional query with \<open>resolution = 'COUNTRY'\<close> gets a table of two rows
  that has a column for the keyword, and \<open>reset_index\<close> accepts the table, the table is
  not empty and the first effect of \<open>plot_interest_by_region\<close> on it is the call of
  \<open>px.choropleth\<close> with \<open>locationmode = 'country names'\<close> and \<open>color = keyword\<close>, on a
  table that has the keyword's column.
\<close>

theorem regional_plot_arguments:
  assumes "build_payload c [keyword] None geo (provider s) = (Inr (), p1)"
    and "interest_by_region c ''COUNTRY'' p1 = (Inr df, p2)"
    and "length (df_index df) = 2"
    and "keyword \<in> set (map fst (df_columns df))"
    and "reset_index df = Inr d"
  shows "\<exists>s1 rest. get_interest_by_region c rng keyword ''COUNTRY'' geo s = (Inr (Some df), s1)
           \<and> \<not> frame_empty df
           \<and> trace (snd (snd (plot_interest_by_region rdr df keyword title s1))) =
               trace s1 @ PxChoropleth d (df_index d) ''country names'' keyword title ''Viridis'' # rest
           \<and> keyword \<in> set (map fst (df_columns d))"
proof -
  have f: "fetch_by_region c keyword ''COUNTRY'' geo (provider s) = (Inr df, p2)"
    using assms(1,2) by (simp add: fetch_by_region_def)
  have g: "get_interest_by_region c rng keyword ''COUNTRY'' geo s =
           (Inr (Some df), s\<lparr>provider := p2, trace := trace s @ [Await]\<rparr>)"
    unfolding get_interest_by_region_def
    using fetch_once [of 3 "fetch_by_region c keyword ''COUNTRY'' geo" s df p2 5 rng] f by simp
  have ne: "\<not> frame_empty df"
    using assms(3,4) by (auto simp: frame_empty_def)
  have col: "keyword \<in> set (map fst (df_columns d))"
    using assms(4,5) by (auto simp: reset_index_def Let_def split: if_splits)
  have "\<exists>rest. trace (snd (snd (plot_interest_by_region rdr df keyword title s1))) =
               trace s1 @ PxChoropleth d (df_index d) ''country names'' keyword title ''Viridis'' # rest"
    for s1 :: "'a world"
    using assms(5) by (simp add: plot_interest_by_region_def Let_def emit_def split: sum.splits)
  with g ne col show ?thesis by blast
qed

text \<open>
  The two-row table of the fake client: the map is asked for with the column
  \<open>Holiday Sales\<close> as colour.
\<close>

theorem regional_plot_arguments_witness:
  "build_payload (fake_client 0 region_table) [''Holiday Sales''] None ''US'' (provider start) = (Inr (), 0)
   \<and> interest_by_region (fake_client 0 region_table) ''COUNTRY'' 0 = (Inr region_table, 1)
   \<and> length (df_index region_table) = 2
   \<and> ''Holiday Sales'' \<in> set (map fst (df_columns region_table))
   \<and> reset_index region_table =
        Inr \<lparr>df_index_name = None, df_index = [Num 0, Num 1],
             df_columns = [(''geoName'', [Str ''Canada'', Str ''United States'']),
                           (''Holiday Sales'', [Num 37, Num 100])]\<rparr>
   \<and> (\<exists>s1 rest.
        get_interest_by_region (fake_client 0 region_table) jitter ''Holiday Sales'' ''COUNTRY'' ''US'' start
          = (Inr (Some region_table), s1)
        \<and> trace (snd (snd (plot_interest_by_region fake_renderer region_table ''Holiday Sales''
                              ''Regional Interest'' s1))) =
            trace s1 @ PxChoropleth
              \<lparr>df_index_name = None, df_index = [Num 0, Num 1],
               df_columns = [(''geoName'', [Str ''Canada'', Str ''United States'']),
                             (''Holiday Sales'', [Num 37, Num 100])]\<rparr>
              [Num 0, Num 1] ''country names'' ''Holiday Sales'' ''Regional Interest'' ''Viridis'' # rest)"
proof -
  let ?c = "fake_client 0 region_table"
  have h1: "build_payload ?c [''Holiday Sales''] None ''US'' (provider start) = (Inr (), 0)"
    by (simp add: fake_client_def start_def)
  have h2: "interest_by_region ?c ''COUNTRY'' 0 = (Inr region_table, 1)"
    by (simp add: fake_client_def)
  have h3: "length (df_index region_table) = 2"
    by (simp add: region_table_def)
  have h4: "''Holiday Sales'' \<in> set (map fst (df_columns region_table))"
    by (simp add: region_table_def)
  have h5: "reset_index region_table =
        Inr \<lparr>df_index_name = None, df_index = [Num 0, Num 1],
             df_columns = [(''geoName'', [Str ''Canada'', Str ''United States'']),
                           (''Holiday Sales'', [Num 37, Num 100])]\<rparr>"
    by (simp add: reset_index_def region_table_def upt_conv_Cons)
  from regional_plot_arguments [OF h1 h2 h3 h4 h5, of jitter fake_renderer "''Regional Interest''"]
  show ?thesis
    using h1 h2 h3 h4 h5 by auto
qed


lemma plot_interest_over_time_trace:
  "\<exists>t. trace (snd (snd (plot_interest_over_time rdr data title s))) = trace s @ t"
  by (simp add: plot_interest_over_time_def Let_def emit_def split: sum.splits)

lemma plot_interest_by_region_trace:
  "\<exists>t. trace (snd (snd (plot_interest_by_region rdr data keyword title s))) = trace s @ t"
  by (simp add: plot_interest_by_region_def Let_def emit_def split: sum.splits)

lemma region_body_first_event:
  "\<exists>t. trace (snd (region_body c rdr rng geo s)) = trace s @ Await # t"
proof -
  let ?g = "get_interest_by_region c rng ''Holiday Sales'' ''COUNTRY'' geo s"
  obtain r s1 where g: "?g = (r, s1)" by (cases ?g)
  have "\<exists>t. trace (snd ?g) = trace s @ Await # t"
    unfolding get_interest_by_region_def async_retry_def by (rule retry_first_event) simp
  with g obtain t where t: "trace s1 = trace s @ Await # t" by auto
  show ?thesis
  proof (cases r)
    case (Inl e)
    with g t show ?thesis by (simp add: region_body_def)
  next
    case (Inr v)
    show ?thesis
    proof (cases v)
      case None
      with g t Inr show ?thesis by (simp add: region_body_def)
    next
      case (Some df)
      obtain u where
        "trace (snd (snd (plot_interest_by_region rdr df ''Holiday Sales''
            ''Regional Interest in the US'' s1))) = trace s1 @ u"
        using plot_interest_by_region_trace by blast
      with g t Inr Some show ?thesis
        by (auto simp: region_body_def print_def emit_def split: prod.splits)
    qed
  qed
qed

text \<open>
  C5: once the client is constructed, \<open>main\<close> ends normally whatever the two steps do.
  An exception of the first step is printed (\<open>Failed to fetch interest over time:\<close> and
  its text), and the second step runs from the state this leaves: its first effect is the
  invocation of the regional query. An exception of the second step is printed in the
  same way and goes no further.
\<close>

theorem main_steps_are_independent:
  assumes ctor: "trend_req c ''en-US'' 360 (provider s) = (Inr (), p)"
    and first: "trends_body c rdr rng
                  [''Black Friday Deals'', ''Cyber Monday Deals'', ''Holiday Sales'']
                  ''today 12-m'' ''US'' (s\<lparr>provider := p\<rparr>) = (r1, s1)"
    and mid: "mid = (case r1 of
                       Inl e \<Rightarrow> print (Text (''Failed to fetch interest over time: '' @ exn_str e)) s1
                     | Inr u \<Rightarrow> s1)"
    and second: "region_body c rdr rng ''US'' mid = (r2, s2)"
  shows "main c rdr rng s =
           (Inr (), case r2 of
                      Inl e \<Rightarrow> print (Text (''Failed to fetch regional interest: '' @ exn_str e)) s2
                    | Inr u \<Rightarrow> s2)
       \<and> (\<exists>t. trace s2 = trace mid @ Await # t)"
proof -
  have "\<exists>t. trace (snd (region_body c rdr rng ''US'' mid)) = trace mid @ Await # t"
    by (rule region_body_first_event)
  with second have ev: "\<exists>t. trace s2 = trace mid @ Await # t" by simp
  have "main c rdr rng s =
           (Inr (), case r2 of
                      Inl e \<Rightarrow> print (Text (''Failed to fetch regional interest: '' @ exn_str e)) s2
                    | Inr u \<Rightarrow> s2)"
    using ctor first mid second
    by (cases r1; cases r2) (simp_all add: main_def try_except_def)
  with ev show ?thesis by simp
qed

text \<open>
  A provider whose first five retrievals fail: the first step gives up after three
  attempts and its error is printed; the second step still runs, succeeds at its third
  attempt and shows the map.
\<close>

theorem main_steps_are_independent_witness:
  "trend_req (fake_client 5 region_table) ''en-US'' 360 (provider start) = (Inr (), 0)
   \<and> fst (trends_body (fake_client 5 region_table) fake_renderer jitter
            [''Black Friday Deals'', ''Cyber Monday Deals'', ''Holiday Sales'']
            ''today 12-m'' ''US'' (start\<lparr>provider := 0\<rparr>))
       = Inl (Exn ''ResponseError'' ''code 429'')
   \<and> fst (main (fake_client 5 region_table) fake_renderer jitter start) = Inr ()
   \<and> Print (Text ''Failed to fetch interest over time: code 429'')
       \<in> set (trace (snd (main (fake_client 5 region_table) fake_renderer jitter start)))
   \<and> last (trace (snd (main (fake_client 5 region_table) fake_renderer jitter start))) = Show"
proof -
  let ?c = "fake_client 5 region_table"
  let ?b = "trends_body ?c fake_renderer jitter
            [''Black Friday Deals'', ''Cyber Monday Deals'', ''Holiday Sales'']
            ''today 12-m'' ''US'' (start\<lparr>provider := 0\<rparr>)"
  let ?mid = "case fst ?b of
                Inl e \<Rightarrow> print (Text (''Failed to fetch interest over time: '' @ exn_str e)) (snd ?b)
              | Inr u \<Rightarrow> snd ?b"
  let ?r = "region_body ?c fake_renderer jitter ''US'' ?mid"
  have ctor: "trend_req ?c ''en-US'' 360 (provider start) = (Inr (), 0)"
    by (simp add: fake_client_def start_def)
  have first: "?b = (fst ?b, snd ?b)" by simp
  have second: "?r = (fst ?r, snd ?r)" by simp
  have b: "?b = (Inl (Exn ''ResponseError'' ''code 429''),
      \<lparr>provider = 3, draws = 2,
       trace = [Await, Print (Retrying (11 / 2) 1), Sleep (11 / 2),
                Await, Print (Retrying (13 / 2) 2), Sleep (13 / 2),
                Await, Print (Text ''Max retries reached. Last error: code 429'')]\<rparr>)"
    by (simp add: trends_body_def get_interest_over_time_def async_retry_def
        async_retry_from.simps fetch_over_time_def fake_client_def start_def
        uniform02_def print_def sleep_def emit_def jitter_def Let_def)
  have r: "fst ?r = Inr () \<and> last (trace (snd ?r)) = Show
      \<and> Print (Text ''Failed to fetch interest over time: code 429'') \<in> set (trace (snd ?r))"
    unfolding b
    by (simp add: region_body_def get_interest_by_region_def async_retry_def
        async_retry_from.simps fetch_by_region_def fake_client_def
        uniform02_def print_def sleep_def emit_def jitter_def Let_def
        frame_empty_def region_table_def plot_interest_by_region_def reset_index_def
        fake_renderer_def)
  from main_steps_are_independent [OF ctor first refl second]
  have m: "main ?c fake_renderer jitter start =
      (Inr (), case fst ?r of
                 Inl e \<Rightarrow> print (Text (''Failed to fetch regional interest: '' @ exn_str e)) (snd ?r)
               | Inr u \<Rightarrow> snd ?r)"
    by blast
  show ?thesis
    using ctor b r unfolding m by simp
qed








end
